theory Spec2Isabelle
  imports Complex_Main
begin

section \<open>The weather dashboard component (weatherapp.tsx)\<close>

text \<open>
  The component \<open>WeatherApp\<close> keeps six reactive fields, runs three asynchronous
  routines against them (\<open>fetchWeather\<close>, \<open>handleSearch\<close> and the effect that depends
  on \<open>unit\<close>) and selects one of three views from the fields. The embedding follows the
  source:

  \<^item> the payload interfaces \<open>WeatherData\<close> and \<open>ForecastData\<close> are records; a field of
    type \<open>number\<close> is a \<open>real\<close> (a well-formed payload holds finite numbers, and each
    finite double is a real number);
  \<^item> the six \<open>useState\<close> fields are the record \<open>state\<close>;
  \<^item> a routine is the list of effects it performs, in order: the setter calls and the
    outgoing requests. The outcomes of the requests come from an environment. Running
    the list over a state gives every state the component passes through;
  \<^item> a rejected promise and a thrown \<open>TypeError\<close> are the left injection of a sum;
  \<^item> a template literal or a run of JSX children is the list of its pieces, a number
    kept as a number, so that no number is ever printed to digits.

  Each routine is run from its first to its last effect. The callbacks handed to the
  position lookup are a routine of their own, \<open>position_callback\<close>, with the unit
  their closure captured: the lookup is answered later, so they may run from a later
  state than the one whose effect started it.
\<close>

subsection \<open>Payloads (the interfaces WeatherData and ForecastData)\<close>

record main_block =
  temp :: real
  feels_like :: real
  humidity :: real
  pressure :: real

record condition =
  description :: string
  icon :: string

record wind_block =
  speed :: real
  deg :: real

text \<open>The field \<open>weather\<close> of \<open>WeatherData\<close> is \<open>weather_conds\<close> here, as the
  component's state has a field \<open>weather\<close> too.\<close>

record weather_data =
  dt :: real
  main :: main_block
  weather_conds :: "condition list"
  wind :: wind_block
  name :: string

record city_block =
  city_name :: string
  country :: string

text \<open>The field \<open>list\<close> of \<open>ForecastData\<close> is \<open>list_items\<close>.\<close>

record forecast_data =
  list_items :: "weather_data list"
  city :: city_block

subsection \<open>The component's state\<close>

datatype unit_system = Metric | Imperial

text \<open>The string a unit interpolates to (\<open>'metric' | 'imperial'\<close>).\<close>

fun unit_str :: "unit_system \<Rightarrow> string" where
  "unit_str Metric = ''metric''"
| "unit_str Imperial = ''imperial''"

record state =
  weather :: "weather_data option"
  forecast :: "forecast_data option"
  location :: string
  unit :: unit_system
  loading :: bool
  error :: string

text \<open>The initial values of the six \<open>useState\<close> calls.\<close>

definition initial_state :: state where
  "initial_state =
     \<lparr>weather = None, forecast = None, location = [], unit = Metric,
      loading = False, error = []\<rparr>"

subsection \<open>Template literals, requests and the environment\<close>

datatype part = Num real | Str string

text \<open>A GET request: the URL up to the question mark, and the query parameters in the
  order of the template literal.\<close>

record request =
  endpoint :: string
  query :: "(string \<times> part) list"

datatype http_error = NetworkError | HttpStatus nat

datatype position_error = PermissionDenied | PositionUnavailable | Timeout

record coords =
  latitude :: real
  longitude :: real

text \<open>One entry of the geocoding response; the source reads \<open>lat\<close> and \<open>lon\<close> only.\<close>

record geo_entry =
  lat :: real
  lon :: real

text \<open>
  What the outside world answers: \<open>axios.get\<close> on each of the three endpoints (the
  promise rejects with \<open>Inl\<close>, resolves with the \<open>data\<close> of the response with
  \<open>Inr\<close>), \<open>navigator.geolocation.getCurrentPosition\<close> (the error callback is
  \<open>Inl\<close>, the success callback \<open>Inr\<close>), and the build-time constant \<open>API_KEY\<close>.
\<close>

record env =
  get_weather :: "request \<Rightarrow> http_error + weather_data"
  get_forecast :: "request \<Rightarrow> http_error + forecast_data"
  get_geo :: "request \<Rightarrow> http_error + geo_entry list"
  geolocation :: "position_error + coords"
  API_KEY :: string

definition weather_request :: "string \<Rightarrow> unit_system \<Rightarrow> real \<Rightarrow> real \<Rightarrow> request" where
  "weather_request k u la lo =
     \<lparr>endpoint = ''https://api.openweathermap.org/data/2.5/weather'',
      query = [(''lat'', Num la), (''lon'', Num lo), (''units'', Str (unit_str u)),
               (''appid'', Str k)]\<rparr>"

definition forecast_request :: "string \<Rightarrow> unit_system \<Rightarrow> real \<Rightarrow> real \<Rightarrow> request" where
  "forecast_request k u la lo =
     \<lparr>endpoint = ''https://api.openweathermap.org/data/2.5/forecast'',
      query = [(''lat'', Num la), (''lon'', Num lo), (''units'', Str (unit_str u)),
               (''appid'', Str k)]\<rparr>"

definition geo_request :: "string \<Rightarrow> string \<Rightarrow> request" where
  "geo_request k q =
     \<lparr>endpoint = ''https://api.openweathermap.org/geo/1.0/direct'',
      query = [(''q'', Str q), (''limit'', Str ''1''), (''appid'', Str k)]\<rparr>"

subsection \<open>Effects\<close>

datatype action =
    SetWeather weather_data
  | SetForecast forecast_data
  | SetLocation string
  | SetUnit unit_system
  | SetLoading bool
  | SetError string
  | HttpGet request
  | GetCurrentPosition

fun apply_action :: "state \<Rightarrow> action \<Rightarrow> state" where
  "apply_action s (SetWeather w) = s\<lparr>weather := Some w\<rparr>"
| "apply_action s (SetForecast f) = s\<lparr>forecast := Some f\<rparr>"
| "apply_action s (SetLocation l) = s\<lparr>location := l\<rparr>"
| "apply_action s (SetUnit u) = s\<lparr>unit := u\<rparr>"
| "apply_action s (SetLoading b) = s\<lparr>loading := b\<rparr>"
| "apply_action s (SetError e) = s\<lparr>error := e\<rparr>"
| "apply_action s (HttpGet r) = s"
| "apply_action s GetCurrentPosition = s"

text \<open>The state after all effects, and the states after each of them.\<close>

fun run :: "state \<Rightarrow> action list \<Rightarrow> state" where
  "run s [] = s"
| "run s (a # as) = run (apply_action s a) as"

fun states_along :: "state \<Rightarrow> action list \<Rightarrow> state list" where
  "states_along s [] = []"
| "states_along s (a # as) = apply_action s a # states_along (apply_action s a) as"

fun requests :: "action list \<Rightarrow> request list" where
  "requests [] = []"
| "requests (HttpGet r # as) = r # requests as"
| "requests (a # as) = requests as"

fun errors_set :: "action list \<Rightarrow> string list" where
  "errors_set [] = []"
| "errors_set (SetError e # as) = e # errors_set as"
| "errors_set (a # as) = errors_set as"

subsection \<open>fetchWeather (lines 17 to 31)\<close>

text \<open>\<open>Promise.all\<close> of two promises: it rejects as soon as one of them does.\<close>

definition Promise_all :: "'e + 'a \<Rightarrow> 'e + 'b \<Rightarrow> 'e + 'a \<times> 'b" where
  "Promise_all p q =
     (case p of
        Inl e \<Rightarrow> Inl e
      | Inr a \<Rightarrow> (case q of Inl e \<Rightarrow> Inl e | Inr b \<Rightarrow> Inr (a, b)))"

text \<open>
  \<open>unit\<close> is the value the closure captured, so it is an argument. Both requests are
  sent before the join is awaited. The \<open>catch\<close> clause ignores what was thrown; the
  \<open>finally\<close> clause runs on both paths.
\<close>

definition fetchWeather :: "env \<Rightarrow> unit_system \<Rightarrow> real \<Rightarrow> real \<Rightarrow> action list" where
  "fetchWeather ev u la lo =
     (let wreq = weather_request (API_KEY ev) u la lo;
          freq = forecast_request (API_KEY ev) u la lo
      in [SetLoading True, HttpGet wreq, HttpGet freq] @
         (case Promise_all (get_weather ev wreq) (get_forecast ev freq) of
            Inr (weatherRes, forecastRes) \<Rightarrow> [SetWeather weatherRes, SetForecast forecastRes]
          | Inl err \<Rightarrow> [SetError ''Failed to fetch weather data'']) @
         [SetLoading False])"

subsection \<open>handleSearch (lines 33 to 55)\<close>

text \<open>
  An empty \<open>location\<close> returns before the \<open>try\<close>. \<open>fetchWeather\<close> catches its own
  failures, so the \<open>catch\<close> clause here sees the geocoding request only.
\<close>

definition handleSearch :: "env \<Rightarrow> state \<Rightarrow> action list" where
  "handleSearch ev s =
     (if location s = [] then []
      else
        (let greq = geo_request (API_KEY ev) (location s)
         in [SetLoading True, HttpGet greq] @
            (case get_geo ev greq of
               Inl err \<Rightarrow> [SetError ''Failed to fetch location'']
             | Inr [] \<Rightarrow> [SetError ''Location not found'']
             | Inr (g # rest) \<Rightarrow> fetchWeather ev (unit s) (lat g) (lon g)) @
            [SetLoading False]))"

subsection \<open>The effect on unit (lines 57 to 64) and the two input handlers\<close>

definition geolocation_blocked :: string where
  "geolocation_blocked = ''Geolocation blocked. Please enable it or search manually.''"

text \<open>
  The two callbacks of \<open>getCurrentPosition\<close> (lines 59 to 62): the success callback
  calls the \<open>fetchWeather\<close> of the render that created it, whose \<open>unit\<close> is \<open>u\<close>; the
  error callback sets the advisory message.
\<close>

definition position_callback :: "env \<Rightarrow> unit_system \<Rightarrow> action list" where
  "position_callback ev u =
     (case geolocation ev of
        Inr position \<Rightarrow> fetchWeather ev u (latitude position) (longitude position)
      | Inl err \<Rightarrow> [SetError geolocation_blocked])"

text \<open>The body of the effect, run against the fields of the render it belongs to: it
  starts the lookup; here the answer follows at once.\<close>

definition effect_body :: "env \<Rightarrow> state \<Rightarrow> action list" where
  "effect_body ev s = GetCurrentPosition # position_callback ev (unit s)"

text \<open>
  The dependency array \<open>[unit]\<close>: the body runs after the first render (\<open>prev\<close> is
  \<open>None\<close>) and after a render whose \<open>unit\<close> is not the one of the render before.
\<close>

definition useEffect :: "env \<Rightarrow> unit_system option \<Rightarrow> state \<Rightarrow> action list" where
  "useEffect ev prev s = (if prev = Some (unit s) then [] else effect_body ev s)"

text \<open>The unit button (line 87) and the text input (line 75).\<close>

definition onClick_unit :: "state \<Rightarrow> action list" where
  "onClick_unit s = [SetUnit (if unit s = Metric then Imperial else Metric)]"

definition onChange_location :: "string \<Rightarrow> action list" where
  "onChange_location v = [SetLocation v]"

text \<open>Mounting the component: the first render, then the effect.\<close>

definition mount :: "env \<Rightarrow> action list" where
  "mount ev = useEffect ev None initial_state"

text \<open>A click on the unit button: the handler, the render it causes, then the effect of
  that render.\<close>

definition toggle_unit :: "env \<Rightarrow> state \<Rightarrow> action list" where
  "toggle_unit ev s =
     (let click = onClick_unit s
      in click @ useEffect ev (Some (unit s)) (run s click))"

subsection \<open>Rendering (lines 66 to 178)\<close>

text \<open>
  \<open>Math.round\<close> on a finite number: the nearest integer, a tie going up.
\<close>

definition Math_round :: "real \<Rightarrow> int" where
  "Math_round x = (let n = \<lfloor>x\<rfloor> in if x - of_int n < 1 / 2 then n else n + 1)"

text \<open>The degree sign, code unit B0.\<close>

definition degree :: string where
  "degree = [CHR 0xB0]"

definition unit_letter :: "unit_system \<Rightarrow> string" where
  "unit_letter u = (if u = Metric then ''C'' else ''F'')"

datatype js_error = TypeError

text \<open>The props of a \<open>WeatherDetail\<close> (its icon is decoration) and of a
  \<open>ForecastDay\<close> element.\<close>

record weather_detail =
  label :: string
  val :: "part list"

record forecast_day_props =
  key :: real
  data :: weather_data
  day_unit :: unit_system

record dashboard =
  heading :: "part list"
  icon_src :: "part list"
  temperature :: "part list"
  description_line :: string
  details :: "weather_detail list"
  tiles :: "forecast_day_props list"

record search_form =
  input_value :: string
  unit_button :: "part list"

datatype view = BeatLoader | ErrorDiv string | Page search_form "dashboard option"

text \<open>\<open>xs[0].f\<close>: reading a field of \<open>undefined\<close> throws.\<close>

definition first_cond :: "weather_data \<Rightarrow> js_error + condition" where
  "first_cond w = (case weather_conds w of [] \<Rightarrow> Inl TypeError | c # cs \<Rightarrow> Inr c)"

text \<open>\<open>forecast.list.slice(0, 5).map(...)\<close>\<close>

definition forecast_tiles :: "forecast_data \<Rightarrow> unit_system \<Rightarrow> forecast_day_props list" where
  "forecast_tiles f u =
     map (\<lambda>day. \<lparr>key = dt day, data = day, day_unit = u\<rparr>) (take 5 (list_items f))"

definition render_dashboard ::
  "weather_data \<Rightarrow> forecast_data \<Rightarrow> unit_system \<Rightarrow> js_error + dashboard" where
  "render_dashboard w f u =
     (case first_cond w of
        Inl e \<Rightarrow> Inl e
      | Inr c \<Rightarrow>
          Inr \<lparr>heading = [Str (name w), Str '', '', Str (country (city f))],
               icon_src = [Str ''https://openweathermap.org/img/wn/'', Str (icon c),
                           Str ''@4x.png''],
               temperature = [Num (of_int (Math_round (temp (main w)))), Str degree,
                              Str (unit_letter u)],
               description_line = description c,
               details =
                 [\<lparr>label = ''Feels like'',
                   val = [Num (of_int (Math_round (feels_like (main w)))), Str degree,
                          Str (unit_letter u)]\<rparr>,
                  \<lparr>label = ''Humidity'', val = [Num (humidity (main w)), Str ''%'']\<rparr>,
                  \<lparr>label = ''Wind Speed'',
                   val = [Num (speed (wind w)), Str '' '',
                          Str (if u = Metric then ''m/s'' else ''mph'')]\<rparr>],
               tiles = forecast_tiles f u\<rparr>)"

text \<open>The component's return value: \<open>loading\<close> first, then \<open>error\<close> (a non-empty string
  is truthy), then the page, its dashboard only under \<open>weather && forecast\<close>.\<close>

definition render :: "state \<Rightarrow> js_error + view" where
  "render s =
     (if loading s then Inr BeatLoader
      else if error s \<noteq> [] then Inr (ErrorDiv (error s))
      else
        (let frm = \<lparr>input_value = location s, unit_button = [Str degree, Str (unit_letter (unit s))]\<rparr>
         in case (weather s, forecast s) of
              (Some w, Some f) \<Rightarrow>
                (case render_dashboard w f (unit s) of
                   Inl e \<Rightarrow> Inl e
                 | Inr d \<Rightarrow> Inr (Page frm (Some d)))
            | _ \<Rightarrow> Inr (Page frm None)))"

text \<open>The component \<open>ForecastDay\<close>. The weekday is formatted by the browser from the
  date \<open>data.dt * 1000\<close>, which is kept as the number of milliseconds.\<close>

record forecast_tile =
  date_ms :: real
  tile_icon_src :: "part list"
  tile_temperature :: "part list"
  tile_description :: string

definition ForecastDay :: "forecast_day_props \<Rightarrow> js_error + forecast_tile" where
  "ForecastDay p =
     (case first_cond (data p) of
        Inl e \<Rightarrow> Inl e
      | Inr c \<Rightarrow>
          Inr \<lparr>date_ms = dt (data p) * 1000,
               tile_icon_src = [Str ''https://openweathermap.org/img/wn/'', Str (icon c),
                                Str ''@2x.png''],
               tile_temperature = [Num (of_int (Math_round (temp (main (data p))))),
                                   Str degree, Str (unit_letter (day_unit p))],
               tile_description = description c\<rparr>)"

text \<open>What a state displays of the dashboard, if anything.\<close>

definition shown_dashboard :: "state \<Rightarrow> dashboard option" where
  "shown_dashboard s = (case render s of Inr (Page frm d) \<Rightarrow> d | _ \<Rightarrow> None)"

subsection \<open>Sample payloads and environments\<close>

text \<open>A reading in metric units, the same place in imperial units, and a forecast of
  six intervals that differ in their time stamp and temperature.\<close>

definition reading_metric :: weather_data where
  "reading_metric =
     \<lparr>dt = 1700000000,
      main = \<lparr>temp = 204 / 10, feels_like = 195 / 10, humidity = 60, pressure = 1015\<rparr>,
      weather_conds = [\<lparr>description = ''clear sky'', icon = ''01d''\<rparr>],
      wind = \<lparr>speed = 32 / 10, deg = 120\<rparr>,
      name = ''Nairobi''\<rparr>"

definition reading_imperial :: weather_data where
  "reading_imperial =
     reading_metric\<lparr>main := \<lparr>temp = 687 / 10, feels_like = 671 / 10, humidity = 60,
                               pressure = 1015\<rparr>,
                     wind := \<lparr>speed = 72 / 10, deg = 120\<rparr>\<rparr>"

definition interval :: "real \<Rightarrow> weather_data" where
  "interval n =
     reading_metric\<lparr>dt := 1700000000 + 10800 * n,
                     main := \<lparr>temp = 20 + n, feels_like = 19 + n, humidity = 60,
                              pressure = 1015\<rparr>\<rparr>"

definition outlook :: forecast_data where
  "outlook =
     \<lparr>list_items = [interval 1, interval 2, interval 3, interval 4, interval 5, interval 6],
      city = \<lparr>city_name = ''Nairobi'', country = ''KE''\<rparr>\<rparr>"

text \<open>A provider that answers every request (in the unit asked for), one whose
  current-conditions endpoint is down, one that knows no place, and a browser that
  refuses to give the position.\<close>

definition provider_up :: env where
  "provider_up =
     \<lparr>get_weather =
        (\<lambda>r. if map_of (query r) ''units'' = Some (Str ''imperial'')
             then Inr reading_imperial else Inr reading_metric),
      get_forecast = (\<lambda>r. Inr outlook),
      get_geo = (\<lambda>r. Inr [\<lparr>lat = - 1, lon = 37\<rparr>]),
      geolocation = Inr \<lparr>latitude = - 1, longitude = 37\<rparr>,
      API_KEY = ''k''\<rparr>"

definition provider_down :: env where
  "provider_down = provider_up\<lparr>get_weather := (\<lambda>r. Inl NetworkError)\<rparr>"

definition provider_nowhere :: env where
  "provider_nowhere = provider_up\<lparr>get_geo := (\<lambda>r. Inr [])\<rparr>"

definition browser_blocked :: env where
  "browser_blocked = provider_up\<lparr>geolocation := Inl PermissionDenied\<rparr>"

text \<open>A state with metric data on display, and one whose last search found nothing.\<close>

definition showing_metric :: state where
  "showing_metric = initial_state\<lparr>weather := Some reading_metric, forecast := Some outlook\<rparr>"

definition searching :: "string \<Rightarrow> state" where
  "searching q = initial_state\<lparr>location := q\<rparr>"

text \<open>The state a search leaves behind when the provider knows no place.\<close>

definition after_failed_search :: state where
  "after_failed_search =
     run (searching ''Nairobi'') (handleSearch provider_nowhere (searching ''Nairobi''))"



section \<open>Properties\<close>

subsection \<open>Auxiliary facts\<close>

lemma Math_round_eq_round: "Math_round x = round x"
proof -
  have "\<lfloor>x + 1 / 2\<rfloor> = (if x - of_int \<lfloor>x\<rfloor> < 1 / 2 then \<lfloor>x\<rfloor> else \<lfloor>x\<rfloor> + 1)"
    by (rule floor_unique) (auto, linarith+)
  then show ?thesis
    by (simp add: Math_round_def round_def Let_def)
qed

lemma fetchWeather_rejected:
  assumes "(\<exists>e. get_weather ev (weather_request (API_KEY ev) u la lo) = Inl e) \<or>
           (\<exists>e. get_forecast ev (forecast_request (API_KEY ev) u la lo) = Inl e)"
  shows "fetchWeather ev u la lo =
           [SetLoading True, HttpGet (weather_request (API_KEY ev) u la lo),
            HttpGet (forecast_request (API_KEY ev) u la lo),
            SetError ''Failed to fetch weather data'', SetLoading False]"
  using assms by (auto simp: fetchWeather_def Promise_all_def Let_def split: sum.splits)

lemma fetchWeather_resolved:
  assumes "get_weather ev (weather_request (API_KEY ev) u la lo) = Inr w"
    and "get_forecast ev (forecast_request (API_KEY ev) u la lo) = Inr f"
  shows "fetchWeather ev u la lo =
           [SetLoading True, HttpGet (weather_request (API_KEY ev) u la lo),
            HttpGet (forecast_request (API_KEY ev) u la lo),
            SetWeather w, SetForecast f, SetLoading False]"
  using assms by (simp add: fetchWeather_def Promise_all_def Let_def)

lemma effect_body_located:
  "geolocation ev = Inr pos \<Longrightarrow>
     effect_body ev s = GetCurrentPosition # fetchWeather ev (unit s) (latitude pos) (longitude pos)"
  by (simp add: effect_body_def position_callback_def)

lemma effect_body_refused:
  "geolocation ev = Inl e \<Longrightarrow> effect_body ev s = [GetCurrentPosition, SetError geolocation_blocked]"
  by (simp add: effect_body_def position_callback_def)

lemma query_weather_request:
  "map_of (query (weather_request k u la lo)) ''lat'' = Some (Num la)"
  "map_of (query (weather_request k u la lo)) ''lon'' = Some (Num lo)"
  "map_of (query (weather_request k u la lo)) ''units'' = Some (Str (unit_str u))"
  by (simp_all add: weather_request_def)

lemma query_forecast_request:
  "map_of (query (forecast_request k u la lo)) ''lat'' = Some (Num la)"
  "map_of (query (forecast_request k u la lo)) ''lon'' = Some (Num lo)"
  "map_of (query (forecast_request k u la lo)) ''units'' = Some (Str (unit_str u))"
  by (simp_all add: forecast_request_def)


lemma shown_dashboard_ready:
  assumes "\<not> loading s" "error s = []" "weather s = Some w" "forecast s = Some f"
    and "weather_conds w \<noteq> []"
  shows "\<exists>d. render_dashboard w f (unit s) = Inr d \<and> shown_dashboard s = Some d \<and>
             render s = Inr (Page \<lparr>input_value = location s,
                                   unit_button = [Str degree, Str (unit_letter (unit s))]\<rparr> (Some d))"
  using assms
  by (cases "weather_conds w")
     (simp_all add: shown_dashboard_def render_def render_dashboard_def first_cond_def)

lemma run_append: "run s (as @ bs) = run (run s as) bs"
  by (induction as arbitrary: s) simp_all

lemma errors_set_append: "errors_set (as @ bs) = errors_set as @ errors_set bs"
  by (induction as rule: errors_set.induct) simp_all

lemma error_never_cleared:
  "[] \<notin> set (errors_set as) \<Longrightarrow> error s \<noteq> [] \<Longrightarrow> error (run s as) \<noteq> []"
proof (induction as arbitrary: s)
  case Nil
  then show ?case by simp
next
  case (Cons a as)
  from Cons.prems have "[] \<notin> set (errors_set as) \<and> error (apply_action s a) \<noteq> []"
    by (cases a) auto
  then show ?case
    using Cons.IH by simp
qed

lemma errors_set_fetchWeather:
  "[] \<notin> set (errors_set (fetchWeather ev u la lo))"
  by (simp add: fetchWeather_def Let_def errors_set_append split: sum.splits prod.splits)

lemma errors_set_handleSearch:
  "[] \<notin> set (errors_set (handleSearch ev s))"
  using errors_set_fetchWeather
  by (simp add: handleSearch_def Let_def errors_set_append split: sum.splits list.splits)

lemma errors_set_effect_body:
  "[] \<notin> set (errors_set (effect_body ev s))"
  using errors_set_fetchWeather
  by (simp add: effect_body_def position_callback_def geolocation_blocked_def split: sum.splits)

lemma loading_fetchWeather: "\<not> loading (run s (fetchWeather ev u la lo))"
  by (simp add: fetchWeather_def Let_def run_append)

lemma loading_handleSearch: "location s \<noteq> [] \<Longrightarrow> \<not> loading (run s (handleSearch ev s))"
  by (simp add: handleSearch_def Let_def run_append)

lemma requests_append: "requests (as @ bs) = requests as @ requests bs"
  by (induction as rule: requests.induct) simp_all

lemma requests_fetchWeather:
  "requests (fetchWeather ev u la lo) =
     [weather_request (API_KEY ev) u la lo, forecast_request (API_KEY ev) u la lo]"
  by (simp add: fetchWeather_def Let_def requests_append split: sum.splits prod.splits)

lemma toggle_unit_unfold:
  assumes "u' = (if unit s = Metric then Imperial else Metric)"
  shows "toggle_unit ev s = SetUnit u' # effect_body ev (s\<lparr>unit := u'\<rparr>)"
  using assms by (simp add: toggle_unit_def onClick_unit_def useEffect_def Let_def)

lemma render_dashboard_temperature:
  "render_dashboard w f u = Inr d \<Longrightarrow>
     temperature d = [Num (of_int (round (temp (main w)))), Str degree, Str (unit_letter u)]"
  by (auto simp: render_dashboard_def Math_round_eq_round split: sum.splits)

lemma endpoint_requests:
  "endpoint (weather_request k u la lo) \<noteq> ''https://api.openweathermap.org/geo/1.0/direct''"
  "endpoint (forecast_request k u la lo) \<noteq> ''https://api.openweathermap.org/geo/1.0/direct''"
  by (simp_all add: weather_request_def forecast_request_def)


lemma position_callback_located:
  "geolocation ev = Inr pos \<Longrightarrow>
     position_callback ev u = fetchWeather ev u (latitude pos) (longitude pos)"
  by (simp add: position_callback_def)

lemma fetch_success_keeps_error:
  assumes "get_weather ev (weather_request (API_KEY ev) u la lo) = Inr w"
    and "get_forecast ev (forecast_request (API_KEY ev) u la lo) = Inr f"
  shows "error (run s (fetchWeather ev u la lo)) = error s"
  by (simp add: fetchWeather_resolved [OF assms])

lemma tile_of_entry:
  assumes "weather_conds e \<noteq> []"
  shows "ForecastDay \<lparr>key = dt e, data = e, day_unit = u\<rparr> =
           Inr \<lparr>date_ms = dt e * 1000,
                tile_icon_src = [Str ''https://openweathermap.org/img/wn/'',
                                 Str (icon (hd (weather_conds e))), Str ''@2x.png''],
                tile_temperature = [Num (of_int (round (temp (main e)))), Str [CHR 0xB0],
                                    Str (if u = Metric then ''C'' else ''F'')],
                tile_description = description (hd (weather_conds e))\<rparr>"
  using assms
  by (cases "weather_conds e")
     (simp_all add: ForecastDay_def first_cond_def Math_round_eq_round degree_def
        unit_letter_def)

subsection \<open>The render selector\<close>

text \<open>
  C2. The selector looks at \<open>loading\<close> first and at \<open>error\<close> second. In every state
  whose loading flag is set the view is the loading indicator, whatever the error message
  and the data are; in every state whose loading flag is clear and whose error message
  is not empty the view is that message, whatever data the state holds.
\<close>

theorem render_precedence:
  "(loading s \<longrightarrow> render s = Inr BeatLoader) \<and>
   (\<not> loading s \<and> error s \<noteq> [] \<longrightarrow> render s = Inr (ErrorDiv (error s)))"
  by (simp add: render_def)

theorem render_precedence_witness:
  "loading (showing_metric\<lparr>loading := True, error := ''Location not found''\<rparr>) \<and>
   render (showing_metric\<lparr>loading := True, error := ''Location not found''\<rparr>) = Inr BeatLoader \<and>
   \<not> loading (showing_metric\<lparr>error := ''Location not found''\<rparr>) \<and>
   error (showing_metric\<lparr>error := ''Location not found''\<rparr>) \<noteq> [] \<and>
   weather (showing_metric\<lparr>error := ''Location not found''\<rparr>) = Some reading_metric \<and>
   render (showing_metric\<lparr>error := ''Location not found''\<rparr>) = Inr (ErrorDiv ''Location not found'')"
proof -
  have a: "loading (showing_metric\<lparr>loading := True, error := ''Location not found''\<rparr>)"
    by simp
  have b: "\<not> loading (showing_metric\<lparr>error := ''Location not found''\<rparr>) \<and>
           error (showing_metric\<lparr>error := ''Location not found''\<rparr>) \<noteq> []"
    by (simp add: showing_metric_def initial_state_def)
  have c: "weather (showing_metric\<lparr>error := ''Location not found''\<rparr>) = Some reading_metric"
    by (simp add: showing_metric_def)
  show ?thesis
    using a b c
      render_precedence [of "showing_metric\<lparr>loading := True, error := ''Location not found''\<rparr>"]
      render_precedence [of "showing_metric\<lparr>error := ''Location not found''\<rparr>"]
    by simp
qed

subsection \<open>The search form\<close>

text \<open>
  C10. Submitting the form while \<open>location\<close> is the empty string does nothing: the
  handler performs no effect at all, so no request is sent (none to the geocoding
  endpoint in particular), the component passes through no new state, and every field
  (\<open>weather\<close>, \<open>forecast\<close>, \<open>loading\<close>, \<open>error\<close>, \<open>unit\<close>, \<open>location\<close>) is as before.
\<close>

theorem empty_search_is_noop:
  "location s = [] \<Longrightarrow>
     handleSearch ev s = [] \<and> requests (handleSearch ev s) = [] \<and>
     states_along s (handleSearch ev s) = [] \<and> run s (handleSearch ev s) = s"
  by (simp add: handleSearch_def)

theorem empty_search_is_noop_witness:
  "location showing_metric = [] \<and>
   handleSearch provider_up showing_metric = [] \<and>
   requests (handleSearch provider_up showing_metric) = [] \<and>
   states_along showing_metric (handleSearch provider_up showing_metric) = [] \<and>
   run showing_metric (handleSearch provider_up showing_metric) = showing_metric"
proof -
  have h: "location showing_metric = []"
    by (simp add: showing_metric_def initial_state_def)
  show ?thesis
    using h empty_search_is_noop [OF h, of provider_up] by simp
qed

text \<open>
  C4. A search whose geocoding lookup returns no entry sends the geocoding request and
  nothing else (no request to the weather or the forecast endpoint), sets the error
  message \<open>Location not found\<close>, which is then the view, and leaves \<open>weather\<close> and
  \<open>forecast\<close> as they were, in the final state and in every state on the way.
\<close>

theorem search_without_match:
  assumes "location s \<noteq> []"
    and "get_geo ev (geo_request (API_KEY ev) (location s)) = Inr []"
  shows "requests (handleSearch ev s) = [geo_request (API_KEY ev) (location s)] \<and>
         (\<forall>r \<in> set (requests (handleSearch ev s)).
            endpoint r = ''https://api.openweathermap.org/geo/1.0/direct'') \<and>
         errors_set (handleSearch ev s) = [''Location not found''] \<and>
         error (run s (handleSearch ev s)) = ''Location not found'' \<and>
         render (run s (handleSearch ev s)) = Inr (ErrorDiv ''Location not found'') \<and>
         weather (run s (handleSearch ev s)) = weather s \<and>
         forecast (run s (handleSearch ev s)) = forecast s \<and>
         (\<forall>s' \<in> set (states_along s (handleSearch ev s)).
            weather s' = weather s \<and> forecast s' = forecast s)"
proof -
  have acts: "handleSearch ev s =
                [SetLoading True, HttpGet (geo_request (API_KEY ev) (location s)),
                 SetError ''Location not found'', SetLoading False]"
    using assms by (simp add: handleSearch_def Let_def)
  show ?thesis
    by (simp add: acts render_def geo_request_def)
qed

theorem search_without_match_witness:
  "location (searching ''Nowhereville'') \<noteq> [] \<and>
   get_geo provider_nowhere
     (geo_request (API_KEY provider_nowhere) (location (searching ''Nowhereville''))) = Inr [] \<and>
   requests (handleSearch provider_nowhere (searching ''Nowhereville'')) =
     [geo_request ''k'' ''Nowhereville''] \<and>
   render (run (searching ''Nowhereville'')
             (handleSearch provider_nowhere (searching ''Nowhereville''))) =
     Inr (ErrorDiv ''Location not found'') \<and>
   weather (run (searching ''Nowhereville'')
              (handleSearch provider_nowhere (searching ''Nowhereville''))) = None"
proof -
  have l: "location (searching ''Nowhereville'') = ''Nowhereville''"
    and w: "weather (searching ''Nowhereville'') = None"
    and k: "API_KEY provider_nowhere = ''k''"
    by (simp_all add: searching_def initial_state_def provider_nowhere_def provider_up_def)
  have h1: "location (searching ''Nowhereville'') \<noteq> []"
    by (simp add: l)
  have h2: "get_geo provider_nowhere
              (geo_request (API_KEY provider_nowhere) (location (searching ''Nowhereville''))) = Inr []"
    by (simp add: provider_nowhere_def)
  show ?thesis
    using h1 h2 search_without_match [OF h1 h2] by (simp add: l w k)
qed

subsection \<open>The combined fetch\<close>

text \<open>
  C1. When one of the two requests of \<open>fetchWeather\<close> fails, neither \<open>weather\<close> nor
  \<open>forecast\<close> is written: they keep their prior values in the final state and in every
  state on the way, so the result of one request alone is never in the state. The
  routine sets one error message, \<open>Failed to fetch weather data\<close>, and it is the error
  field of the final state.
\<close>

theorem fetch_failure_leaves_data:
  assumes "(\<exists>e. get_weather ev (weather_request (API_KEY ev) u la lo) = Inl e) \<or>
           (\<exists>e. get_forecast ev (forecast_request (API_KEY ev) u la lo) = Inl e)"
  shows "weather (run s (fetchWeather ev u la lo)) = weather s \<and>
         forecast (run s (fetchWeather ev u la lo)) = forecast s \<and>
         (\<forall>s' \<in> set (states_along s (fetchWeather ev u la lo)).
            weather s' = weather s \<and> forecast s' = forecast s) \<and>
         errors_set (fetchWeather ev u la lo) = [''Failed to fetch weather data''] \<and>
         error (run s (fetchWeather ev u la lo)) = ''Failed to fetch weather data'' \<and>
         \<not> loading (run s (fetchWeather ev u la lo))"
  by (simp add: fetchWeather_rejected [OF assms])

theorem fetch_failure_leaves_data_witness:
  "get_weather provider_down (weather_request (API_KEY provider_down) Metric 1 2) = Inl NetworkError \<and>
   weather (run showing_metric (fetchWeather provider_down Metric 1 2)) = Some reading_metric \<and>
   forecast (run showing_metric (fetchWeather provider_down Metric 1 2)) = Some outlook \<and>
   errors_set (fetchWeather provider_down Metric 1 2) = [''Failed to fetch weather data''] \<and>
   error (run showing_metric (fetchWeather provider_down Metric 1 2)) = ''Failed to fetch weather data''"
proof -
  have h: "get_weather provider_down (weather_request (API_KEY provider_down) Metric 1 2) = Inl NetworkError"
    by (simp add: provider_down_def)
  have d: "weather showing_metric = Some reading_metric \<and> forecast showing_metric = Some outlook"
    by (simp add: showing_metric_def)
  have hyp: "(\<exists>e. get_weather provider_down (weather_request (API_KEY provider_down) Metric 1 2) = Inl e) \<or>
             (\<exists>e. get_forecast provider_down (forecast_request (API_KEY provider_down) Metric 1 2) = Inl e)"
    using h by blast
  show ?thesis
    using h d fetch_failure_leaves_data [OF hyp, of showing_metric] by simp
qed




text \<open>
  C5. Every completion of \<open>fetchWeather\<close> leaves the loading flag clear, but an error
  message stays on display after a later fetch has succeeded. The run: the component
  mounts and the position lookup is pending, with the empty form on display; the user
  types \<open>Nairobi\<close> and submits; the geocoder knows no such place and the view is
  \<open>Location not found\<close>; the position then arrives and both requests succeed. The state
  holds the new payloads and the loading flag is clear, yet the view is still
  \<open>Location not found\<close>. The view of an error has no form either: where the lookup is
  refused, the message asks for a manual search that the view does not offer.
\<close>

theorem pending_lookup_keeps_error:
  "mount provider_nowhere = GetCurrentPosition # position_callback provider_nowhere Metric \<and>
   render initial_state =
     Inr (Page \<lparr>input_value = [], unit_button = [Str [CHR 0xB0], Str ''C'']\<rparr> None) \<and>
   run initial_state (onChange_location ''Nairobi'') = searching ''Nairobi'' \<and>
   render (searching ''Nairobi'') =
     Inr (Page \<lparr>input_value = ''Nairobi'', unit_button = [Str [CHR 0xB0], Str ''C'']\<rparr> None) \<and>
   after_failed_search =
     run (searching ''Nairobi'') (handleSearch provider_nowhere (searching ''Nairobi'')) \<and>
   render after_failed_search = Inr (ErrorDiv ''Location not found'') \<and>
   weather (run after_failed_search (position_callback provider_nowhere Metric)) =
     Some reading_metric \<and>
   forecast (run after_failed_search (position_callback provider_nowhere Metric)) =
     Some outlook \<and>
   \<not> loading (run after_failed_search (position_callback provider_nowhere Metric)) \<and>
   render (run after_failed_search (position_callback provider_nowhere Metric)) =
     Inr (ErrorDiv ''Location not found'') \<and>
   render (run initial_state (mount browser_blocked)) =
     Inr (ErrorDiv ''Geolocation blocked. Please enable it or search manually.'')"
proof -
  have s: "after_failed_search =
             initial_state\<lparr>location := ''Nairobi'', error := ''Location not found''\<rparr>"
    by (simp add: after_failed_search_def searching_def handleSearch_def provider_nowhere_def
          initial_state_def)
  have g: "geolocation provider_nowhere = Inr \<lparr>latitude = - 1, longitude = 37\<rparr>"
    by (simp add: provider_nowhere_def provider_up_def)
  have h1: "get_weather provider_nowhere
              (weather_request (API_KEY provider_nowhere) Metric (- 1) 37) = Inr reading_metric"
    by (simp add: provider_nowhere_def provider_up_def weather_request_def)
  have h2: "get_forecast provider_nowhere
              (forecast_request (API_KEY provider_nowhere) Metric (- 1) 37) = Inr outlook"
    by (simp add: provider_nowhere_def provider_up_def)
  have cb: "position_callback provider_nowhere Metric =
              [SetLoading True,
               HttpGet (weather_request (API_KEY provider_nowhere) Metric (- 1) 37),
               HttpGet (forecast_request (API_KEY provider_nowhere) Metric (- 1) 37),
               SetWeather reading_metric, SetForecast outlook, SetLoading False]"
    using fetchWeather_resolved [OF h1 h2] by (simp add: position_callback_def g)
  have m: "mount provider_nowhere =
             GetCurrentPosition # position_callback provider_nowhere Metric"
    by (simp add: mount_def useEffect_def effect_body_def initial_state_def)
  have forms: "render initial_state =
                 Inr (Page \<lparr>input_value = [], unit_button = [Str [CHR 0xB0], Str ''C'']\<rparr> None) \<and>
               run initial_state (onChange_location ''Nairobi'') = searching ''Nairobi'' \<and>
               render (searching ''Nairobi'') =
                 Inr (Page \<lparr>input_value = ''Nairobi'',
                            unit_button = [Str [CHR 0xB0], Str ''C'']\<rparr> None)"
    by (simp add: render_def initial_state_def searching_def onChange_location_def degree_def
          unit_letter_def)
  have failed: "render after_failed_search = Inr (ErrorDiv ''Location not found'')"
    by (simp add: s render_def initial_state_def)
  have later: "weather (run after_failed_search (position_callback provider_nowhere Metric)) =
                 Some reading_metric \<and>
               forecast (run after_failed_search (position_callback provider_nowhere Metric)) =
                 Some outlook \<and>
               \<not> loading (run after_failed_search (position_callback provider_nowhere Metric)) \<and>
               render (run after_failed_search (position_callback provider_nowhere Metric)) =
                 Inr (ErrorDiv ''Location not found'')"
    by (simp add: cb render_def) (simp add: s)
  have blocked: "render (run initial_state (mount browser_blocked)) =
                   Inr (ErrorDiv ''Geolocation blocked. Please enable it or search manually.'')"
    by (simp add: mount_def useEffect_def effect_body_def position_callback_def
          browser_blocked_def geolocation_blocked_def render_def initial_state_def)
  show ?thesis
    using m forms failed later blocked by (simp add: after_failed_search_def)
qed

subsection \<open>Geolocation\<close>

text \<open>
  C9. When the browser reports a geolocation failure, the effect sends no request and
  sets the advisory message. On mount (no search has been made) the view is that
  message and the state holds no weather and no forecast; run from any state, the
  effect leaves \<open>weather\<close> and \<open>forecast\<close> as they were, and if the loading flag is
  clear the view is the advisory message, with no dashboard.
\<close>

theorem geolocation_failure_advises:
  assumes "geolocation ev = Inl e"
  shows "requests (mount ev) = [] \<and>
         errors_set (mount ev) = [geolocation_blocked] \<and>
         render (run initial_state (mount ev)) = Inr (ErrorDiv geolocation_blocked) \<and>
         shown_dashboard (run initial_state (mount ev)) = None \<and>
         weather (run initial_state (mount ev)) = None \<and>
         forecast (run initial_state (mount ev)) = None \<and>
         requests (effect_body ev s) = [] \<and>
         weather (run s (effect_body ev s)) = weather s \<and>
         forecast (run s (effect_body ev s)) = forecast s \<and>
         (\<not> loading s \<longrightarrow>
            render (run s (effect_body ev s)) = Inr (ErrorDiv geolocation_blocked) \<and>
            shown_dashboard (run s (effect_body ev s)) = None)"
proof -
  have msg: "geolocation_blocked \<noteq> []"
    by (simp add: geolocation_blocked_def)
  have m: "mount ev = [GetCurrentPosition, SetError geolocation_blocked]"
    by (simp add: mount_def useEffect_def effect_body_refused [OF assms])
  have i: "\<not> loading initial_state \<and> weather initial_state = None \<and> forecast initial_state = None"
    by (simp add: initial_state_def)
  show ?thesis
    using msg i
    by (simp add: m effect_body_refused [OF assms] render_def shown_dashboard_def)
qed

theorem geolocation_failure_advises_witness:
  "geolocation browser_blocked = Inl PermissionDenied \<and>
   requests (mount browser_blocked) = [] \<and>
   render (run initial_state (mount browser_blocked)) =
     Inr (ErrorDiv ''Geolocation blocked. Please enable it or search manually.'') \<and>
   \<not> loading showing_metric \<and>
   render (run showing_metric (effect_body browser_blocked showing_metric)) =
     Inr (ErrorDiv ''Geolocation blocked. Please enable it or search manually.'')"
proof -
  have h: "geolocation browser_blocked = Inl PermissionDenied"
    by (simp add: browser_blocked_def)
  have l: "\<not> loading showing_metric"
    by (simp add: showing_metric_def initial_state_def)
  show ?thesis
    using h l geolocation_failure_advises [OF h, of showing_metric]
    by (simp add: geolocation_blocked_def)
qed

subsection \<open>The unit toggle\<close>

text \<open>
  C6 (as amended). A click on the unit button sets the other unit and, after the render
  with it, asks the browser for the position; it never sends a geocoding request. Every
  request it sends carries the new unit as \<open>units\<close>; when the position is found, the
  requests are the current-conditions and the forecast request for that position in the
  new unit, and when both succeed the state holds the new unit and the two payloads of
  the answer, whose temperature is then what the dashboard displays. The dashboard
  never converts: it displays the rounded temperature of the stored reading under the
  letter of the unit, whatever the unit. In the state right after the click the unit
  is new and \<open>weather\<close> and \<open>forecast\<close> are still the prior readings.
\<close>

theorem unit_change_refetches:
  assumes "u' = (if unit s = Metric then Imperial else Metric)"
  shows "hd (toggle_unit ev s) = SetUnit u' \<and>
         hd (tl (toggle_unit ev s)) = GetCurrentPosition \<and>
         (\<forall>r \<in> set (requests (toggle_unit ev s)).
            endpoint r \<noteq> ''https://api.openweathermap.org/geo/1.0/direct'' \<and>
            map_of (query r) ''units'' = Some (Str (unit_str u'))) \<and>
         (geolocation ev = Inr pos \<longrightarrow>
            requests (toggle_unit ev s) =
              [weather_request (API_KEY ev) u' (latitude pos) (longitude pos),
               forecast_request (API_KEY ev) u' (latitude pos) (longitude pos)]) \<and>
         (geolocation ev = Inr pos \<and>
          get_weather ev (weather_request (API_KEY ev) u' (latitude pos) (longitude pos)) = Inr w \<and>
          get_forecast ev (forecast_request (API_KEY ev) u' (latitude pos) (longitude pos)) = Inr f \<longrightarrow>
            unit (run s (toggle_unit ev s)) = u' \<and>
            weather (run s (toggle_unit ev s)) = Some w \<and>
            forecast (run s (toggle_unit ev s)) = Some f \<and>
            (error s = [] \<and> weather_conds w \<noteq> [] \<longrightarrow>
               map_option temperature (shown_dashboard (run s (toggle_unit ev s))) =
                 Some [Num (of_int (round (temp (main w)))), Str degree, Str (unit_letter u')])) \<and>
         (\<forall>w0 f0 u0 d. render_dashboard w0 f0 u0 = Inr d \<longrightarrow>
            temperature d =
              [Num (of_int (round (temp (main w0)))), Str degree, Str (unit_letter u0)]) \<and>
         unit (hd (states_along s (toggle_unit ev s))) = u' \<and>
         weather (hd (states_along s (toggle_unit ev s))) = weather s \<and>
         forecast (hd (states_along s (toggle_unit ev s))) = forecast s"
proof -
  note t = toggle_unit_unfold [OF assms, of ev]
  have first: "hd (toggle_unit ev s) = SetUnit u' \<and>
               hd (tl (toggle_unit ev s)) = GetCurrentPosition"
    by (simp add: t effect_body_def)
  have reqs: "\<forall>r \<in> set (requests (toggle_unit ev s)).
                endpoint r \<noteq> ''https://api.openweathermap.org/geo/1.0/direct'' \<and>
                map_of (query r) ''units'' = Some (Str (unit_str u'))"
  proof (cases "geolocation ev")
    case (Inl e)
    then show ?thesis
      by (simp add: t effect_body_refused)
  next
    case (Inr p)
    then show ?thesis
      by (simp add: t effect_body_located requests_fetchWeather query_weather_request
            query_forecast_request endpoint_requests)
  qed
  have located: "requests (toggle_unit ev s) =
                   [weather_request (API_KEY ev) u' (latitude pos) (longitude pos),
                    forecast_request (API_KEY ev) u' (latitude pos) (longitude pos)]"
    if "geolocation ev = Inr pos"
    by (simp add: t effect_body_located [OF that] requests_fetchWeather)
  have fetched: "unit (run s (toggle_unit ev s)) = u' \<and>
                 weather (run s (toggle_unit ev s)) = Some w \<and>
                 forecast (run s (toggle_unit ev s)) = Some f \<and>
                 (error s = [] \<and> weather_conds w \<noteq> [] \<longrightarrow>
                    map_option temperature (shown_dashboard (run s (toggle_unit ev s))) =
                      Some [Num (of_int (round (temp (main w)))), Str degree, Str (unit_letter u')])"
    if g: "geolocation ev = Inr pos"
      and w: "get_weather ev (weather_request (API_KEY ev) u' (latitude pos) (longitude pos)) = Inr w"
      and f: "get_forecast ev (forecast_request (API_KEY ev) u' (latitude pos) (longitude pos)) = Inr f"
  proof -
    have acts: "toggle_unit ev s =
                  [SetUnit u', GetCurrentPosition, SetLoading True,
                   HttpGet (weather_request (API_KEY ev) u' (latitude pos) (longitude pos)),
                   HttpGet (forecast_request (API_KEY ev) u' (latitude pos) (longitude pos)),
                   SetWeather w, SetForecast f, SetLoading False]"
      using w f by (simp add: t effect_body_located [OF g] fetchWeather_resolved)
    have fin: "run s (toggle_unit ev s) =
                 s\<lparr>weather := Some w, forecast := Some f, unit := u', loading := False\<rparr>"
      by (simp add: acts)
    have shown: "map_option temperature (shown_dashboard (run s (toggle_unit ev s))) =
                   Some [Num (of_int (round (temp (main w)))), Str degree, Str (unit_letter u')]"
      if "error s = []" "weather_conds w \<noteq> []"
    proof -
      from that obtain d where d: "render_dashboard w f u' = Inr d"
        and sd: "shown_dashboard (run s (toggle_unit ev s)) = Some d"
        using shown_dashboard_ready [of "run s (toggle_unit ev s)" w f]
        by (auto simp: fin)
      show ?thesis
        by (simp add: sd render_dashboard_temperature [OF d])
    qed
    show ?thesis
      using shown by (simp add: fin)
  qed
  have plain: "\<forall>w0 f0 u0 d. render_dashboard w0 f0 u0 = Inr d \<longrightarrow>
                 temperature d =
                   [Num (of_int (round (temp (main w0)))), Str degree, Str (unit_letter u0)]"
    using render_dashboard_temperature by blast
  have between: "unit (hd (states_along s (toggle_unit ev s))) = u' \<and>
                 weather (hd (states_along s (toggle_unit ev s))) = weather s \<and>
                 forecast (hd (states_along s (toggle_unit ev s))) = forecast s"
    by (simp add: t)
  show ?thesis
    using first reqs located fetched plain between by blast
qed

theorem unit_change_refetches_witness:
  "Imperial = (if unit showing_metric = Metric then Imperial else Metric) \<and>
   geolocation provider_up = Inr \<lparr>latitude = - 1, longitude = 37\<rparr> \<and>
   get_weather provider_up (weather_request (API_KEY provider_up) Imperial (- 1) 37) =
     Inr reading_imperial \<and>
   get_forecast provider_up (forecast_request (API_KEY provider_up) Imperial (- 1) 37) =
     Inr outlook \<and>
   error showing_metric = [] \<and> weather_conds reading_imperial \<noteq> [] \<and>
   requests (toggle_unit provider_up showing_metric) =
     [weather_request ''k'' Imperial (- 1) 37, forecast_request ''k'' Imperial (- 1) 37] \<and>
   weather (run showing_metric (toggle_unit provider_up showing_metric)) = Some reading_imperial \<and>
   map_option temperature
     (shown_dashboard (run showing_metric (toggle_unit provider_up showing_metric))) =
     Some [Num 69, Str degree, Str ''F'']"
proof -
  have u: "Imperial = (if unit showing_metric = Metric then Imperial else Metric)"
    by (simp add: showing_metric_def initial_state_def)
  have g: "geolocation provider_up = Inr \<lparr>latitude = - 1, longitude = 37\<rparr>"
    and k: "API_KEY provider_up = ''k''"
    by (simp_all add: provider_up_def)
  have w: "get_weather provider_up (weather_request (API_KEY provider_up) Imperial (- 1) 37) =
             Inr reading_imperial"
    by (simp add: provider_up_def weather_request_def)
  have f: "get_forecast provider_up (forecast_request (API_KEY provider_up) Imperial (- 1) 37) =
             Inr outlook"
    by (simp add: provider_up_def)
  have e: "error showing_metric = []"
    by (simp add: showing_metric_def initial_state_def)
  have c: "weather_conds reading_imperial \<noteq> []"
    by (simp add: reading_imperial_def reading_metric_def)
  have r: "round (temp (main reading_imperial)) = 69"
    by (simp add: reading_imperial_def round_def)
  show ?thesis
    using u g w f e c
      unit_change_refetches [OF u, of provider_up "\<lparr>latitude = - 1, longitude = 37\<rparr>"
        reading_imperial outlook]
    by (simp add: k r unit_letter_def)
qed

text \<open>
  The claim C6 as stated fails in the render between the click and the re-fetch: with a
  metric reading of 20.4 on display, the state right after the click shows \<open>20\<close> under
  the suffix for Fahrenheit, from the prior reading, where the reading the provider
  returns for imperial units rounds to 69.
\<close>

theorem stale_reading_under_new_unit_counterexample:
  "unit showing_metric = Metric \<and>
   hd (toggle_unit provider_up showing_metric) = SetUnit Imperial \<and>
   unit (hd (states_along showing_metric (toggle_unit provider_up showing_metric))) = Imperial \<and>
   weather (hd (states_along showing_metric (toggle_unit provider_up showing_metric))) =
     Some reading_metric \<and>
   map_option temperature
     (shown_dashboard (hd (states_along showing_metric (toggle_unit provider_up showing_metric)))) =
     Some [Num 20, Str degree, Str ''F''] \<and>
   Math_round (temp (main reading_metric)) = 20 \<and>
   get_weather provider_up (weather_request (API_KEY provider_up) Imperial (- 1) 37) =
     Inr reading_imperial \<and>
   Math_round (temp (main reading_imperial)) = 69"
proof -
  have u: "unit showing_metric = Metric"
    by (simp add: showing_metric_def initial_state_def)
  have t: "toggle_unit provider_up showing_metric =
             SetUnit Imperial # effect_body provider_up (showing_metric\<lparr>unit := Imperial\<rparr>)"
    by (simp add: toggle_unit_def onClick_unit_def useEffect_def u)
  have m: "Math_round (temp (main reading_metric)) = 20"
    by (simp add: reading_metric_def Math_round_def)
  have i: "Math_round (temp (main reading_imperial)) = 69"
    by (simp add: reading_imperial_def Math_round_def)
  have w: "get_weather provider_up (weather_request (API_KEY provider_up) Imperial (- 1) 37) =
             Inr reading_imperial"
    by (simp add: provider_up_def weather_request_def)
  have c: "weather_conds reading_metric =
             [\<lparr>description = ''clear sky'', icon = ''01d''\<rparr>]"
    by (simp add: reading_metric_def)
  have shown: "map_option temperature (shown_dashboard (showing_metric\<lparr>unit := Imperial\<rparr>)) =
                 Some [Num 20, Str degree, Str ''F'']"
    by (simp add: shown_dashboard_def render_def render_dashboard_def first_cond_def
          showing_metric_def initial_state_def c m unit_letter_def)
  show ?thesis
    using shown by (simp add: u t m i w) (simp add: showing_metric_def)
qed

subsection \<open>The dashboard\<close>

text \<open>
  C7. For a payload whose list of conditions is not empty: when the dashboard is on
  display (loading flag clear, no error message, both fields set), the temperature
  paragraph is the number \<open>round (main.temp)\<close>, the degree sign, and the letter \<open>C\<close>
  if the unit is metric, \<open>F\<close> if it is imperial; every forecast tile is handed the
  unit of the state; and a forecast tile renders its payload's temperature the same
  way under the unit it was handed. Here \<open>round\<close> is the nearest integer, a tie going
  up, which is what \<open>Math.round\<close> computes.
\<close>

theorem displayed_temperature:
  "(\<not> loading s \<and> error s = [] \<and> weather s = Some w \<and> forecast s = Some f \<and>
    weather_conds w \<noteq> [] \<longrightarrow>
      map_option temperature (shown_dashboard s) =
        Some [Num (of_int (round (temp (main w)))), Str [CHR 0xB0],
              Str (if unit s = Metric then ''C'' else ''F'')] \<and>
      (\<forall>d p. shown_dashboard s = Some d \<and> p \<in> set (tiles d) \<longrightarrow> day_unit p = unit s)) \<and>
   (weather_conds (data p) \<noteq> [] \<longrightarrow>
      map_sum id tile_temperature (ForecastDay p) =
        Inr [Num (of_int (round (temp (main (data p))))), Str [CHR 0xB0],
             Str (if day_unit p = Metric then ''C'' else ''F'')])"
proof -
  have app: "map_option temperature (shown_dashboard s) =
               Some [Num (of_int (round (temp (main w)))), Str [CHR 0xB0],
                     Str (if unit s = Metric then ''C'' else ''F'')] \<and>
             (\<forall>d p. shown_dashboard s = Some d \<and> p \<in> set (tiles d) \<longrightarrow> day_unit p = unit s)"
    if "\<not> loading s" "error s = []" "weather s = Some w" "forecast s = Some f"
      "weather_conds w \<noteq> []"
  proof -
    from shown_dashboard_ready [OF that]
    obtain d where d: "render_dashboard w f (unit s) = Inr d"
      and sd: "shown_dashboard s = Some d"
      by blast
    have "tiles d = forecast_tiles f (unit s)"
      using d by (auto simp: render_dashboard_def split: sum.splits)
    then have "\<forall>p \<in> set (tiles d). day_unit p = unit s"
      by (auto simp: forecast_tiles_def)
    then show ?thesis
      by (simp add: sd render_dashboard_temperature [OF d] degree_def unit_letter_def)
  qed
  have tile: "map_sum id tile_temperature (ForecastDay p) =
                Inr [Num (of_int (round (temp (main (data p))))), Str [CHR 0xB0],
                     Str (if day_unit p = Metric then ''C'' else ''F'')]"
    if "weather_conds (data p) \<noteq> []"
    using that
    by (cases "weather_conds (data p)")
       (simp_all add: ForecastDay_def first_cond_def Math_round_eq_round degree_def
          unit_letter_def)
  show ?thesis
    using app tile by blast
qed

theorem displayed_temperature_witness:
  "\<not> loading showing_metric \<and> error showing_metric = [] \<and>
   weather showing_metric = Some reading_metric \<and> forecast showing_metric = Some outlook \<and>
   weather_conds reading_metric \<noteq> [] \<and> unit showing_metric = Metric \<and>
   map_option temperature (shown_dashboard showing_metric) =
     Some [Num 20, Str [CHR 0xB0], Str ''C''] \<and>
   weather (showing_metric\<lparr>weather := Some reading_imperial, unit := Imperial\<rparr>) =
     Some reading_imperial \<and>
   map_option temperature
     (shown_dashboard (showing_metric\<lparr>weather := Some reading_imperial, unit := Imperial\<rparr>)) =
     Some [Num 69, Str [CHR 0xB0], Str ''F''] \<and>
   weather_conds (data \<lparr>key = 0, data = interval 1, day_unit = Imperial\<rparr>) \<noteq> [] \<and>
   map_sum id tile_temperature (ForecastDay \<lparr>key = 0, data = interval 1, day_unit = Imperial\<rparr>) =
     Inr [Num 21, Str [CHR 0xB0], Str ''F'']"
proof -
  have s: "\<not> loading showing_metric \<and> error showing_metric = [] \<and>
           weather showing_metric = Some reading_metric \<and>
           forecast showing_metric = Some outlook \<and> unit showing_metric = Metric"
    by (simp add: showing_metric_def initial_state_def)
  have c: "weather_conds reading_metric \<noteq> []" "weather_conds reading_imperial \<noteq> []"
    "weather_conds (interval 1) \<noteq> []"
    by (simp_all add: reading_metric_def reading_imperial_def interval_def)
  have r: "round (temp (main reading_metric)) = 20" "round (temp (main reading_imperial)) = 69"
    "round (temp (main (interval 1))) = 21"
    by (simp_all add: reading_metric_def reading_imperial_def interval_def round_def)
  show ?thesis
    using s c r
      displayed_temperature [of showing_metric reading_metric outlook
        "\<lparr>key = 0, data = interval 1, day_unit = Imperial\<rparr>"]
      displayed_temperature [of "showing_metric\<lparr>weather := Some reading_imperial, unit := Imperial\<rparr>"
        reading_imperial outlook "\<lparr>key = 0, data = interval 1, day_unit = Imperial\<rparr>"]
    by simp
qed

text \<open>
  C8. When the dashboard is on display, the forecast list has at least five entries and
  the first five each have a condition, there are exactly five tiles, they carry the
  first five entries of the list in the order of the list (the tile at position \<open>i\<close>
  carries entry \<open>i\<close>, with the entry's time stamp as its key), and each of them renders:
  the five rendered tiles are, in that order, the date, the icon, the rounded temperature
  under the unit's letter and the description of the first five entries.
\<close>

theorem first_five_tiles:
  assumes "\<not> loading s" "error s = []" "weather s = Some w" "forecast s = Some f"
    and "weather_conds w \<noteq> []"
    and "5 \<le> length (list_items f)"
    and "\<forall>e \<in> set (take 5 (list_items f)). weather_conds e \<noteq> []"
  shows "\<exists>d. shown_dashboard s = Some d \<and>
             length (tiles d) = 5 \<and>
             map data (tiles d) = take 5 (list_items f) \<and>
             map key (tiles d) = map dt (take 5 (list_items f)) \<and>
             (\<forall>i < 5. data (tiles d ! i) = list_items f ! i) \<and>
             map ForecastDay (tiles d) =
               map (\<lambda>e. Inr \<lparr>date_ms = dt e * 1000,
                              tile_icon_src = [Str ''https://openweathermap.org/img/wn/'',
                                               Str (icon (hd (weather_conds e))),
                                               Str ''@2x.png''],
                              tile_temperature = [Num (of_int (round (temp (main e)))),
                                                  Str [CHR 0xB0],
                                                  Str (if unit s = Metric then ''C'' else ''F'')],
                              tile_description = description (hd (weather_conds e))\<rparr>)
                   (take 5 (list_items f))"
proof -
  from shown_dashboard_ready [OF assms(1-5)]
  obtain d where d: "render_dashboard w f (unit s) = Inr d"
    and sd: "shown_dashboard s = Some d"
    by blast
  have t: "tiles d = forecast_tiles f (unit s)"
    using d by (auto simp: render_dashboard_def split: sum.splits)
  have "length (tiles d) = 5"
    using assms(6) by (simp add: t forecast_tiles_def)
  moreover have "map data (tiles d) = take 5 (list_items f)"
    by (simp add: t forecast_tiles_def comp_def)
  moreover have "map key (tiles d) = map dt (take 5 (list_items f))"
    by (simp add: t forecast_tiles_def comp_def)
  moreover have "\<forall>i < 5. data (tiles d ! i) = list_items f ! i"
    using assms(6) by (simp add: t forecast_tiles_def)
  moreover have "map ForecastDay (tiles d) =
               map (\<lambda>e. Inr \<lparr>date_ms = dt e * 1000,
                              tile_icon_src = [Str ''https://openweathermap.org/img/wn/'',
                                               Str (icon (hd (weather_conds e))),
                                               Str ''@2x.png''],
                              tile_temperature = [Num (of_int (round (temp (main e)))),
                                                  Str [CHR 0xB0],
                                                  Str (if unit s = Metric then ''C'' else ''F'')],
                              tile_description = description (hd (weather_conds e))\<rparr>)
                   (take 5 (list_items f))"
    using assms(7) by (simp add: t forecast_tiles_def comp_def tile_of_entry)
  ultimately show ?thesis
    using sd by blast
qed

theorem first_five_tiles_witness:
  "\<not> loading showing_metric \<and> error showing_metric = [] \<and>
   weather showing_metric = Some reading_metric \<and> forecast showing_metric = Some outlook \<and>
   weather_conds reading_metric \<noteq> [] \<and> 5 \<le> length (list_items outlook) \<and>
   length (list_items outlook) = 6 \<and>
   weather_conds (interval 1) \<noteq> [] \<and> weather_conds (interval 2) \<noteq> [] \<and>
   weather_conds (interval 3) \<noteq> [] \<and> weather_conds (interval 4) \<noteq> [] \<and>
   weather_conds (interval 5) \<noteq> [] \<and>
   map_option (map data \<circ> tiles) (shown_dashboard showing_metric) =
     Some [interval 1, interval 2, interval 3, interval 4, interval 5] \<and>
   map_option (map (map_sum id tile_temperature \<circ> ForecastDay) \<circ> tiles)
     (shown_dashboard showing_metric) =
     Some [Inr [Num 21, Str [CHR 0xB0], Str ''C''], Inr [Num 22, Str [CHR 0xB0], Str ''C''],
           Inr [Num 23, Str [CHR 0xB0], Str ''C''], Inr [Num 24, Str [CHR 0xB0], Str ''C''],
           Inr [Num 25, Str [CHR 0xB0], Str ''C'']] \<and>
   map_option (map (map_sum id date_ms \<circ> ForecastDay) \<circ> tiles)
     (shown_dashboard showing_metric) =
     Some [Inr 1700010800000, Inr 1700021600000, Inr 1700032400000, Inr 1700043200000,
           Inr 1700054000000]"
proof -
  have s: "\<not> loading showing_metric" "error showing_metric = []"
    "weather showing_metric = Some reading_metric" "forecast showing_metric = Some outlook"
    by (simp_all add: showing_metric_def initial_state_def)
  have u: "unit showing_metric = Metric"
    by (simp add: showing_metric_def initial_state_def)
  have c: "weather_conds reading_metric \<noteq> []"
    by (simp add: reading_metric_def)
  have ci: "weather_conds (interval n) \<noteq> []" for n
    by (simp add: interval_def reading_metric_def)
  have l: "list_items outlook =
             [interval 1, interval 2, interval 3, interval 4, interval 5, interval 6]"
    by (simp add: outlook_def)
  have n: "5 \<le> length (list_items outlook)"
    by (simp add: l)
  have wf: "\<forall>e \<in> set (take 5 (list_items outlook)). weather_conds e \<noteq> []"
    by (simp add: l ci)
  have r: "round (temp (main (interval 1))) = 21" "round (temp (main (interval 2))) = 22"
    "round (temp (main (interval 3))) = 23" "round (temp (main (interval 4))) = 24"
    "round (temp (main (interval 5))) = 25"
    by (simp_all add: interval_def)
  have t: "dt (interval 1) = 1700010800" "dt (interval 2) = 1700021600"
    "dt (interval 3) = 1700032400" "dt (interval 4) = 1700043200"
    "dt (interval 5) = 1700054000"
    by (simp_all add: interval_def)
  from first_five_tiles [OF s c n wf]
  obtain d where sd: "shown_dashboard showing_metric = Some d"
    and da: "map data (tiles d) = take 5 (list_items outlook)"
    and fd: "map ForecastDay (tiles d) =
               map (\<lambda>e. Inr \<lparr>date_ms = dt e * 1000,
                              tile_icon_src = [Str ''https://openweathermap.org/img/wn/'',
                                               Str (icon (hd (weather_conds e))),
                                               Str ''@2x.png''],
                              tile_temperature = [Num (of_int (round (temp (main e)))),
                                                  Str [CHR 0xB0],
                                                  Str (if unit showing_metric = Metric
                                                       then ''C'' else ''F'')],
                              tile_description = description (hd (weather_conds e))\<rparr>)
                   (take 5 (list_items outlook))"
    by blast
  have temps: "map (map_sum id tile_temperature \<circ> ForecastDay) (tiles d) =
                 [Inr [Num 21, Str [CHR 0xB0], Str ''C''], Inr [Num 22, Str [CHR 0xB0], Str ''C''],
                  Inr [Num 23, Str [CHR 0xB0], Str ''C''], Inr [Num 24, Str [CHR 0xB0], Str ''C''],
                  Inr [Num 25, Str [CHR 0xB0], Str ''C'']]"
    using arg_cong [OF fd, of "map (map_sum id tile_temperature)"]
    by (simp add: l u r)
  have dates: "map (map_sum id date_ms \<circ> ForecastDay) (tiles d) =
                 [Inr 1700010800000, Inr 1700021600000, Inr 1700032400000, Inr 1700043200000,
                  Inr 1700054000000]"
    using arg_cong [OF fd, of "map (map_sum id date_ms)"]
    by (simp add: l t)
  show ?thesis
    using s c n ci by (simp add: sd da temps dates l)
qed

end
